theory Spec2Isabelle
  imports Complex_Main
begin

section \<open>The credential relay of \<^verbatim>\<open>token-server/src/tokenServer.ts\<close>\<close>

text \<open>
  The relay is one request listener. It reads the request's method, URL and two headers,
  may run the identity CLI once through \<^verbatim>\<open>execSync\<close>, and writes one response.
  The listener is embedded as a function from the request (and the platform the process
  runs on) to the response it writes. What the file itself computes is translated line by
  line; what it calls into is either written out where the language or the runtime fixes
  it (truthiness, \<^verbatim>\<open>||\<close>, \<^verbatim>\<open>String.prototype.split\<close>, \<^verbatim>\<open>parseInt\<close>,
  the time range of \<^verbatim>\<open>Date\<close>, \<^verbatim>\<open>Date.prototype.toUTCString\<close>, the status-code
  check of \<^verbatim>\<open>response.writeHead\<close>) or taken as a parameter where it is not (the
  CLI, \<^verbatim>\<open>JSON.parse\<close>, the date parser, \<^verbatim>\<open>JSON.stringify\<close> of an error object).
\<close>

subsection \<open>Values of the platform\<close>

text \<open>
  A value as \<^verbatim>\<open>JSON.parse\<close> returns it. A number carries the value of the double; an
  object carries its own properties, each name once. \<^verbatim>\<open>undefined\<close> is never a JSON
  value: where the source can see it, the model uses \<open>None\<close>.
\<close>

datatype json =
    JNull
  | JBool bool
  | JNum real
  | JStr string
  | JArr "json list"
  | JObj "(string \<times> json) list"

text \<open>
  What the try blocks of the file can catch: the error \<^verbatim>\<open>execSync\<close> throws, with its
  \<^verbatim>\<open>status\<close> property (the exit status; \<open>None\<close> when the property is \<^verbatim>\<open>null\<close>
  or missing, as after a signal or a failed spawn) and the rest of the object kept as
  text; and the \<^verbatim>\<open>RangeError\<close> of \<^verbatim>\<open>writeHead\<close>, which has no \<^verbatim>\<open>status\<close>.
\<close>

datatype js_error =
    ChildProcessError "int option" string
  | InvalidStatusCode int

fun err_status :: "js_error \<Rightarrow> int option" where
  "err_status (ChildProcessError st _) = st"
| "err_status (InvalidStatusCode _) = None"

record platform =
  execSync :: "string \<Rightarrow> js_error + string"
  JSON_parse :: "string \<Rightarrow> json option"
  Date_new :: "json \<Rightarrow> int option"
  JSON_stringify :: "js_error \<Rightarrow> string"

text \<open>
  \<^item> \<open>execSync P cmd\<close>: running the shell command \<open>cmd\<close> with encoding utf-8; \<open>Inr\<close>
    its standard output, \<open>Inl\<close> the error thrown.
  \<^item> \<open>JSON_parse P s\<close>: \<open>None\<close> when \<^verbatim>\<open>JSON.parse\<close> throws its \<^verbatim>\<open>SyntaxError\<close>.
  \<^item> \<open>Date_new P v\<close>: the time value, in milliseconds since the epoch, of
    \<^verbatim>\<open>new Date(v)\<close>; \<open>None\<close> when it is \<^verbatim>\<open>NaN\<close> (an invalid date). How a string that is
    not in the ISO format parses is left to the implementation by the language.
  \<^item> \<open>JSON_stringify P e\<close>: the text \<^verbatim>\<open>JSON.stringify\<close> gives for a caught error.
\<close>

record request =
  req_method :: string
  url :: "string option"
  headers :: "string \<rightharpoonup> string"

record response =
  statusCode :: int
  headerFields :: "string \<rightharpoonup> string"
  content :: "string option"

text \<open>
  The response as the relay writes it: the status code, the header fields the relay sets
  (the runtime's own, such as \<^verbatim>\<open>Date\<close>, are not the relay's), and the argument of
  \<^verbatim>\<open>response.end\<close> or \<^verbatim>\<open>response.write\<close>; \<open>None\<close> is \<^verbatim>\<open>undefined\<close>, an empty body.
\<close>

subsection \<open>Language primitives\<close>

text \<open>Truthiness of a parsed value (\<^verbatim>\<open>ToBoolean\<close>).\<close>

fun truthy :: "json \<Rightarrow> bool" where
  "truthy JNull = False"
| "truthy (JBool b) = b"
| "truthy (JNum x) = (x \<noteq> 0)"
| "truthy (JStr s) = (s \<noteq> [])"
| "truthy (JArr _) = True"
| "truthy (JObj _) = True"

text \<open>
  Reading a property that only a parsed object can own: any other value (a number, a
  string, an array) gives \<^verbatim>\<open>undefined\<close>.
\<close>

fun get_prop :: "json \<Rightarrow> string \<Rightarrow> json option" where
  "get_prop (JObj kvs) k = map_of kvs k"
| "get_prop _ k = None"

text \<open>\<^verbatim>\<open>a || d\<close> on a string that may be \<^verbatim>\<open>undefined\<close>: the empty string is falsy too.\<close>

fun or_default :: "string option \<Rightarrow> string \<Rightarrow> string" where
  "or_default None d = d"
| "or_default (Some v) d = (if v = [] then d else v)"

text \<open>\<^verbatim>\<open>s.split(c)\<close> for a separator of one character: never empty, \<open>[[]]\<close> for the empty string.\<close>

fun split :: "char \<Rightarrow> string \<Rightarrow> string list" where
  "split c [] = [[]]"
| "split c (x # xs) =
     (if x = c then [] # split c xs
      else (case split c xs of [] \<Rightarrow> [[x]] | y # ys \<Rightarrow> (x # y) # ys))"

text \<open>\<^verbatim>\<open>arr[i]\<close>: \<^verbatim>\<open>undefined\<close> past the end.\<close>

definition index :: "'a list \<Rightarrow> nat \<Rightarrow> 'a option" where
  "index xs i = (if i < length xs then Some (xs ! i) else None)"

text \<open>
  \<^verbatim>\<open>parseInt(s, 10)\<close>: leading white space is skipped, then an optional sign, then the
  longest run of decimal digits; \<open>None\<close> is \<^verbatim>\<open>NaN\<close>, when there is no digit. The
  characters of a request URL are single bytes, so the white space is that of Latin-1.
  The result is a double: the signed value of the digits, exact below \<open>2 ^ 53\<close> and
  rounded beyond to the nearest double (53 significant bits, found by halving the value
  until it is below \<open>2 ^ 53\<close>; a tie goes to the even one). A
  value past the largest double is \<^verbatim>\<open>Infinity\<close>; \<open>2 ^ 1024\<close> stands for it, signed: like
  \<^verbatim>\<open>Infinity\<close> it is not zero and its conversion to 32 bits is 0, the two things the
  relay does with the number.
\<close>

definition is_ws :: "char \<Rightarrow> bool" where
  "is_ws c = ((of_char c :: nat) \<in> {9, 10, 11, 12, 13, 32, 160})"

definition is_digit :: "char \<Rightarrow> bool" where
  "is_digit c = (48 \<le> (of_char c :: nat) \<and> (of_char c :: nat) \<le> 57)"

definition digits_value :: "string \<Rightarrow> int" where
  "digits_value ds = foldl (\<lambda>a c. 10 * a + (int (of_char c) - 48)) 0 ds"

function shift_count :: "int \<Rightarrow> nat" where
  "shift_count a = (if a < 9007199254740992 then 0 else Suc (shift_count (a div 2)))"
  by pat_completeness auto
termination
  by (relation "measure nat") auto

declare shift_count.simps [simp del]

definition round_to_double :: "int \<Rightarrow> int" where
  "round_to_double n =
     (if \<bar>n\<bar> < 9007199254740992 then n
      else
        (let a = \<bar>n\<bar>;
             e = shift_count a;
             q = a div 2 ^ e;
             r = a mod 2 ^ e;
             h = 2 ^ (e - 1);
             q' = (if h < r \<or> (r = h \<and> odd q) then q + 1 else q);
             m = min (q' * 2 ^ e) (2 ^ 1024)
         in if n < 0 then - m else m))"

definition parseInt :: "string \<Rightarrow> int option" where
  "parseInt s =
     (let t = dropWhile is_ws s;
          neg = (case t of [] \<Rightarrow> False | c # _ \<Rightarrow> c = CHR ''-'');
          u = (case t of [] \<Rightarrow> [] | c # r \<Rightarrow> if c = CHR ''-'' \<or> c = CHR ''+'' then r else t);
          ds = takeWhile is_digit u
      in if ds = [] then None
         else Some (round_to_double (if neg then - digits_value ds else digits_value ds)))"

text \<open>\<^verbatim>\<open>n || d\<close> on a number: \<^verbatim>\<open>NaN\<close> and zero are falsy.\<close>

fun num_or :: "int option \<Rightarrow> int \<Rightarrow> int" where
  "num_or None d = d"
| "num_or (Some n) d = (if n = 0 then d else n)"

subsection \<open>Dates\<close>

text \<open>
  A \<^verbatim>\<open>Date\<close> object holds a time value: a whole number of milliseconds since the epoch,
  at most \<open>8.64 * 10 ^ 15\<close> in magnitude, or \<^verbatim>\<open>NaN\<close> (\<open>None\<close>). \<^verbatim>\<open>new Date(n)\<close> on a
  number clips to that range; \<^verbatim>\<open>getTime\<close> reads the time value back.
\<close>

definition TimeClip :: "int \<Rightarrow> int option" where
  "TimeClip t = (if \<bar>t\<bar> \<le> 8640000000000000 then Some t else None)"

fun Date_of_number :: "int option \<Rightarrow> int option" where
  "Date_of_number None = None"
| "Date_of_number (Some t) = TimeClip t"

text \<open>
  \<^verbatim>\<open>toUTCString\<close>: \<^verbatim>\<open>Invalid Date\<close> for \<^verbatim>\<open>NaN\<close>, else the day name, the day of the
  month on two digits, the month name, the year on at least four digits, and the time of
  day, in UTC. The civil date of a day number is computed by eras of 400 years (146097
  days), counted from the first of March of year 0.
\<close>

fun decimal :: "nat \<Rightarrow> string" where
  "decimal n = (if n < 10 then [''0123456789'' ! n]
                else decimal (n div 10) @ [''0123456789'' ! (n mod 10)])"

declare decimal.simps [simp del]

definition zero_pad :: "nat \<Rightarrow> string \<Rightarrow> string" where
  "zero_pad k s = replicate (k - length s) (CHR ''0'') @ s"

definition civil_from_days :: "int \<Rightarrow> int \<times> int \<times> int" where
  "civil_from_days d =
     (let z = d + 719468;
          era = z div 146097;
          doe = z mod 146097;
          yoe = (doe - doe div 1460 + doe div 36524 - doe div 146096) div 365;
          doy = doe - (365 * yoe + yoe div 4 - yoe div 100);
          mp = (5 * doy + 2) div 153;
          dd = doy - (153 * mp + 2) div 5 + 1;
          m = (if mp < 10 then mp + 3 else mp - 9);
          y = yoe + era * 400 + (if m \<le> 2 then 1 else 0)
      in (y, m, dd))"

definition utc_string :: "int \<Rightarrow> string" where
  "utc_string t =
     (let day = t div 86400000;
          ms = t mod 86400000;
          (y, m, dd) = civil_from_days day;
          two = (\<lambda>n. zero_pad 2 (decimal (nat n)))
      in [''Sun'', ''Mon'', ''Tue'', ''Wed'', ''Thu'', ''Fri'', ''Sat''] ! nat ((day + 4) mod 7)
         @ '', '' @ two dd @ '' ''
         @ [''Jan'', ''Feb'', ''Mar'', ''Apr'', ''May'', ''Jun'',
            ''Jul'', ''Aug'', ''Sep'', ''Oct'', ''Nov'', ''Dec''] ! nat (m - 1)
         @ '' '' @ (if y < 0 then ''-'' else []) @ zero_pad 4 (decimal (nat \<bar>y\<bar>))
         @ '' '' @ two (ms div 3600000) @ '':'' @ two (ms div 60000 mod 60)
         @ '':'' @ two (ms div 1000 mod 60) @ '' GMT'')"

fun toUTCString :: "int option \<Rightarrow> string" where
  "toUTCString None = ''Invalid Date''"
| "toUTCString (Some t) = utc_string t"

subsection \<open>The runtime's response\<close>

text \<open>
  \<^verbatim>\<open>response.writeHead(code, ...)\<close> converts the code to a 32-bit integer
  (\<^verbatim>\<open>statusCode |= 0\<close>) and throws a \<^verbatim>\<open>RangeError\<close> unless it lies in 100..999; nothing
  has been written then.
\<close>

definition ToInt32 :: "int \<Rightarrow> int" where
  "ToInt32 n = (n + 2147483648) mod 4294967296 - 2147483648"

definition writeHead :: "int \<Rightarrow> js_error + int" where
  "writeHead code =
     (let c = ToInt32 code
      in if c < 100 \<or> c > 999 then Inl (InvalidStatusCode code) else Inr c)"

subsection \<open>The relay\<close>

text \<open>
  \<^verbatim>\<open>execAz\<close>: the CLI's output, \<^verbatim>\<open>undefined\<close> when the error thrown has status 1, and
  the error thrown again otherwise.
\<close>

definition execAz :: "platform \<Rightarrow> string \<Rightarrow> js_error + string option" where
  "execAz P cmd =
     (case execSync P (''az '' @ cmd) of
        Inr response \<Rightarrow> Inr (Some response)
      | Inl err \<Rightarrow> if err_status err \<noteq> Some 1 then Inl err else Inr None)"

text \<open>
  \<^verbatim>\<open>getCacheHeaders\<close>: the text is parsed only when it is truthy; a \<^verbatim>\<open>SyntaxError\<close> of
  the parser is caught (and logged), and the function falls through to \<^verbatim>\<open>return {}\<close>.
  Nothing else in the try block can throw: \<^verbatim>\<open>auth.expiresOn\<close> is read under the guard
  \<^verbatim>\<open>auth &&\<close>, and the \<^verbatim>\<open>Date\<close> operations return \<^verbatim>\<open>NaN\<close> or \<^verbatim>\<open>Invalid Date\<close>.
\<close>

definition getCacheHeaders :: "platform \<Rightarrow> string option \<Rightarrow> (string \<rightharpoonup> string)" where
  "getCacheHeaders P tokenJson =
     (let validUntilBeforeExpirySec = 5 * 60
      in case tokenJson of
           None \<Rightarrow> Map.empty
         | Some s \<Rightarrow>
             if s = [] then Map.empty
             else (case JSON_parse P s of
                     None \<Rightarrow> Map.empty
                   | Some auth \<Rightarrow>
                       (case (if truthy auth then get_prop auth ''expiresOn'' else None) of
                          None \<Rightarrow> Map.empty
                        | Some v \<Rightarrow>
                            if truthy v then
                              (let expiresOn = Date_new P v;
                                   cacheExpires = Date_of_number
                                     (map_option (\<lambda>t. t - validUntilBeforeExpirySec * 1000) expiresOn)
                               in [''Cache-Control'' \<mapsto> ''private'',
                                   ''Expires'' \<mapsto> toUTCString cacheExpires])
                            else Map.empty)))"

text \<open>
  \<^verbatim>\<open>setResponse\<close>: the three fixed fields, overridden by the fields of \<open>hdrs\<close> where the
  names meet (the object spread), then the body. The request's header names are in lower
  case, as the runtime stores them.
\<close>

definition setResponse ::
  "request \<Rightarrow> int \<Rightarrow> string option \<Rightarrow> (string \<rightharpoonup> string) \<Rightarrow> js_error + response" where
  "setResponse request code body hdrs =
     (case writeHead code of
        Inl err \<Rightarrow> Inl err
      | Inr c \<Rightarrow>
          Inr \<lparr>statusCode = c,
               headerFields =
                 [''Content-Type'' \<mapsto> ''text/plain'',
                  ''Access-Control-Allow-Origin'' \<mapsto>
                     or_default (headers request ''origin'') ''self'',
                  ''Access-Control-Allow-Headers'' \<mapsto>
                     or_default (headers request ''access-control-request-headers'') ''*'']
                 ++ hdrs,
               content = body\<rparr>)"

text \<open>
  The try block of the listener. \<^verbatim>\<open>!request.url\<close> holds for a missing URL and for the
  empty one. The switch compares \<^verbatim>\<open>urlArr[1]\<close>, which may be \<^verbatim>\<open>undefined\<close>, with each
  label by strict equality. \<^verbatim>\<open>parseInt\<close> converts its argument to a string first, so an
  \<^verbatim>\<open>undefined\<close> argument is read as the text \<^verbatim>\<open>undefined\<close>.
\<close>

definition handler_try :: "platform \<Rightarrow> request \<Rightarrow> js_error + response" where
  "handler_try P request =
     (if req_method request = ''OPTIONS'' then setResponse request 200 None Map.empty
      else case url request of
        None \<Rightarrow> setResponse request 404 (Some ''Empty url'') Map.empty
      | Some u \<Rightarrow>
          if u = [] then setResponse request 404 (Some ''Empty url'') Map.empty
          else
            (let urlArr = split (CHR ''/'') u;
                 seg = index urlArr 1
             in if seg = Some ''token'' then
                  (case execAz P ''account get-access-token -o json'' of
                     Inl err \<Rightarrow> Inl err
                   | Inr tokenJson \<Rightarrow>
                       setResponse request 200 tokenJson (getCacheHeaders P tokenJson))
                else if seg = Some ''logout'' then
                  (case execAz P ''logout'' of
                     Inl err \<Rightarrow> Inl err
                   | Inr out \<Rightarrow> setResponse request 200 out Map.empty)
                else if seg = Some ''login'' then
                  (case execAz P ''login'' of
                     Inl err \<Rightarrow> Inl err
                   | Inr out \<Rightarrow> setResponse request 200 out Map.empty)
                else if seg = Some ''user'' then
                  (case execAz P ''account show -o json'' of
                     Inl err \<Rightarrow> Inl err
                   | Inr out \<Rightarrow> setResponse request 200 out Map.empty)
                else if seg = Some ''httpcode'' then
                  setResponse request
                    (num_or (parseInt (case index urlArr 2 of None \<Rightarrow> ''undefined'' | Some a \<Rightarrow> a)) 404)
                    (index urlArr 2) Map.empty
                else setResponse request 404 (Some (''Unsupported url '' @ u)) Map.empty))"

text \<open>
  The listener: the catch block writes the head with status 500 and no field, then the
  serialized error.
\<close>

definition handler :: "platform \<Rightarrow> request \<Rightarrow> response" where
  "handler P request =
     (case handler_try P request of
        Inr r \<Rightarrow> r
      | Inl err \<Rightarrow>
          \<lparr>statusCode = 500, headerFields = Map.empty,
           content = Some (JSON_stringify P err)\<rparr>)"

subsection \<open>Notions of the properties, and platforms for examples\<close>

text \<open>
  The facts about the parameters that hold on every implementation of the language and
  that the properties below rely on: the empty text is not JSON, and the empty string is
  not a date.
\<close>

definition conforming :: "platform \<Rightarrow> bool" where
  "conforming P = (JSON_parse P [] = None \<and> Date_new P (JStr []) = None)"

text \<open>
  The routes that run the CLI, each with the arguments \<^verbatim>\<open>execAz\<close> gets, as the switch
  of the listener lists them.
\<close>

definition cli_routes :: "(string \<times> string) list" where
  "cli_routes =
     [(''token'', ''account get-access-token -o json''),
      (''logout'', ''logout''),
      (''login'', ''login''),
      (''user'', ''account show -o json'')]"

text \<open>
  A platform whose CLI answers \<open>r\<close> to every command, whose parser reads every text but
  the empty one as \<open>j\<close>, and whose \<^verbatim>\<open>Date\<close> reads every value but the empty string as
  \<open>d\<close>. It stands for the process a test would fake.
\<close>

fun error_text :: "js_error \<Rightarrow> string" where
  "error_text (ChildProcessError st m) = m"
| "error_text (InvalidStatusCode n) = ''ERR_HTTP_INVALID_STATUS_CODE''"

definition fake_platform :: "(js_error + string) \<Rightarrow> json option \<Rightarrow> int option \<Rightarrow> platform" where
  "fake_platform r j d =
     \<lparr>execSync = (\<lambda>cmd. r),
      JSON_parse = (\<lambda>s. if s = [] then None else j),
      Date_new = (\<lambda>v. if v = JStr [] then None else d),
      JSON_stringify = error_text\<rparr>"

definition get_request :: "string \<Rightarrow> request" where
  "get_request u = \<lparr>req_method = ''GET'', url = Some u, headers = Map.empty\<rparr>"

text \<open>
  Two such platforms: one whose CLI prints a token that expires on 1 January 2024 at
  12:00:00 UTC (the time value 1704110400000), and one whose token carries an expiry
  text that is not a date.
\<close>

definition token_text :: string where
  \<open>token_text = ''{"accessToken":"eyJ0","expiresOn":"2024-01-01 12:00:00.000000"}''\<close>

definition token_value :: json where
  "token_value =
     JObj [(''accessToken'', JStr ''eyJ0''), (''expiresOn'', JStr ''2024-01-01 12:00:00.000000'')]"

definition logged_in :: platform where
  "logged_in = fake_platform (Inr token_text) (Some token_value) (Some 1704110400000)"

definition bad_expiry :: platform where
  \<open>bad_expiry =
     fake_platform (Inr ''{"expiresOn":"soon"}'') (Some (JObj [(''expiresOn'', JStr ''soon'')])) None\<close>

text \<open>A platform whose CLI fails with exit status 2 on every command.\<close>

definition no_cli :: platform where
  "no_cli = fake_platform (Inl (ChildProcessError (Some 2) ''az: command failed'')) None None"

text \<open>
  The part of a URL between its first and its second \<open>/\<close> (to the end when there is no
  second one); \<open>None\<close> when the URL has no \<open>/\<close>.
\<close>

definition first_segment :: "string \<Rightarrow> string option" where
  "first_segment u =
     (case dropWhile (\<lambda>x. x \<noteq> CHR ''/'') u of
        [] \<Rightarrow> None
      | _ # r \<Rightarrow> Some (takeWhile (\<lambda>x. x \<noteq> CHR ''/'') r))"

text \<open>The labels of the switch.\<close>

definition routes :: "string list" where
  "routes = [''token'', ''logout'', ''login'', ''user'', ''httpcode'']"

text \<open>A valid integer string: decimal digits after an optional sign; and its value.\<close>

definition integer_string :: "string \<Rightarrow> bool" where
  "integer_string s =
     (case s of
        [] \<Rightarrow> False
      | c # r \<Rightarrow>
          if c = CHR ''-'' \<or> c = CHR ''+'' then r \<noteq> [] \<and> list_all is_digit r
          else list_all is_digit s)"

definition integer_value :: "string \<Rightarrow> int" where
  "integer_value s =
     (case s of
        [] \<Rightarrow> 0
      | c # r \<Rightarrow>
          if c = CHR ''-'' then - digits_value r
          else if c = CHR ''+'' then digits_value r
          else digits_value s)"

subsection \<open>Facts about the primitives\<close>

lemma writeHead_in_range: "100 \<le> c \<Longrightarrow> c \<le> 999 \<Longrightarrow> writeHead c = Inr c"
  by (simp add: writeHead_def ToInt32_def)

lemma setResponse_in_range:
  "100 \<le> c \<Longrightarrow> c \<le> 999 \<Longrightarrow>
   setResponse request c body hdrs =
     Inr \<lparr>statusCode = c,
          headerFields =
            [''Content-Type'' \<mapsto> ''text/plain'',
             ''Access-Control-Allow-Origin'' \<mapsto> or_default (headers request ''origin'') ''self'',
             ''Access-Control-Allow-Headers'' \<mapsto>
                or_default (headers request ''access-control-request-headers'') ''*'']
            ++ hdrs,
          content = body\<rparr>"
  by (simp add: setResponse_def writeHead_in_range)

lemma split_not_Nil: "split c s \<noteq> []"
  by (induction s) (auto split: list.splits)

lemma split_takeWhile:
  "split c s =
     takeWhile (\<lambda>x. x \<noteq> c) s #
       (case dropWhile (\<lambda>x. x \<noteq> c) s of [] \<Rightarrow> [] | _ # r \<Rightarrow> split c r)"
  by (induction s) (auto split: list.splits simp: split_not_Nil)

lemma index_split_Nil: "index (split c []) (Suc 0) = None"
  by (simp add: index_def)

lemma execAz_status_1:
  "execSync P (''az '' @ cmd) = Inl err \<Longrightarrow> err_status err = Some 1 \<Longrightarrow> execAz P cmd = Inr None"
  by (simp add: execAz_def)

lemma execAz_failure:
  "execSync P (''az '' @ cmd) = Inl err \<Longrightarrow> err_status err \<noteq> Some 1 \<Longrightarrow> execAz P cmd = Inl err"
  by (simp add: execAz_def)

lemma execAz_output:
  "execSync P (''az '' @ cmd) = Inr out \<Longrightarrow> execAz P cmd = Inr (Some out)"
  by (simp add: execAz_def)

lemma getCacheHeaders_undefined: "getCacheHeaders P None = Map.empty"
  by (simp add: getCacheHeaders_def)

text \<open>The route table, case by case.\<close>

lemma cli_routes_cases:
  assumes "(r, cmd) \<in> set cli_routes"
  obtains "r = ''token''" "cmd = ''account get-access-token -o json''"
    | "r = ''logout''" "cmd = ''logout''"
    | "r = ''login''" "cmd = ''login''"
    | "r = ''user''" "cmd = ''account show -o json''"
proof -
  from assms have
    "(r, cmd) = (''token'', ''account get-access-token -o json'') \<or>
     (r, cmd) = (''logout'', ''logout'') \<or>
     (r, cmd) = (''login'', ''login'') \<or>
     (r, cmd) = (''user'', ''account show -o json'')"
    unfolding cli_routes_def list.set insert_iff empty_iff
    by (elim disjE FalseE) (rule disjI1, assumption | rule disjI2)+
  then show ?thesis
    unfolding prod.inject by (elim disjE conjE) (rule that; assumption)+
qed

text \<open>What the listener does on each route that runs the CLI.\<close>

lemma url_not_empty:
  "index (split c u) 1 = Some r \<Longrightarrow> u \<noteq> []"
  using index_split_Nil by auto

lemma handler_try_token:
  assumes "req_method req \<noteq> ''OPTIONS''" and "url req = Some u"
    and "index (split (CHR ''/'') u) 1 = Some ''token''"
  shows "handler_try P req =
     (case execAz P ''account get-access-token -o json'' of
        Inl err \<Rightarrow> Inl err
      | Inr tokenJson \<Rightarrow> setResponse req 200 tokenJson (getCacheHeaders P tokenJson))"
  using assms url_not_empty [OF assms(3)] by (simp add: handler_try_def)

lemma handler_try_logout:
  assumes "req_method req \<noteq> ''OPTIONS''" and "url req = Some u"
    and "index (split (CHR ''/'') u) 1 = Some ''logout''"
  shows "handler_try P req =
     (case execAz P ''logout'' of
        Inl err \<Rightarrow> Inl err
      | Inr out \<Rightarrow> setResponse req 200 out Map.empty)"
  using assms url_not_empty [OF assms(3)] by (simp add: handler_try_def)

lemma handler_try_login:
  assumes "req_method req \<noteq> ''OPTIONS''" and "url req = Some u"
    and "index (split (CHR ''/'') u) 1 = Some ''login''"
  shows "handler_try P req =
     (case execAz P ''login'' of
        Inl err \<Rightarrow> Inl err
      | Inr out \<Rightarrow> setResponse req 200 out Map.empty)"
  using assms url_not_empty [OF assms(3)] by (simp add: handler_try_def)

lemma handler_try_user:
  assumes "req_method req \<noteq> ''OPTIONS''" and "url req = Some u"
    and "index (split (CHR ''/'') u) 1 = Some ''user''"
  shows "handler_try P req =
     (case execAz P ''account show -o json'' of
        Inl err \<Rightarrow> Inl err
      | Inr out \<Rightarrow> setResponse req 200 out Map.empty)"
  using assms url_not_empty [OF assms(3)] by (simp add: handler_try_def)

lemma handler_try_cli_undefined:
  assumes "req_method req \<noteq> ''OPTIONS''" and "url req = Some u"
    and "index (split (CHR ''/'') u) 1 = Some r" and "(r, cmd) \<in> set cli_routes"
    and "execAz P cmd = Inr None"
  shows "handler_try P req = setResponse req 200 None Map.empty"
  using assms(4)
proof (cases rule: cli_routes_cases)
  case 1
  show ?thesis
    using handler_try_token [OF assms(1,2) assms(3) [unfolded 1(1)], of P]
      assms(5) [unfolded 1(2)]
    by (simp add: getCacheHeaders_undefined)
next
  case 2
  show ?thesis
    using handler_try_logout [OF assms(1,2) assms(3) [unfolded 2(1)], of P]
      assms(5) [unfolded 2(2)]
    by simp
next
  case 3
  show ?thesis
    using handler_try_login [OF assms(1,2) assms(3) [unfolded 3(1)], of P]
      assms(5) [unfolded 3(2)]
    by simp
next
  case 4
  show ?thesis
    using handler_try_user [OF assms(1,2) assms(3) [unfolded 4(1)], of P]
      assms(5) [unfolded 4(2)]
    by simp
qed

lemma handler_try_cli_throws:
  assumes "req_method req \<noteq> ''OPTIONS''" and "url req = Some u"
    and "index (split (CHR ''/'') u) 1 = Some r" and "(r, cmd) \<in> set cli_routes"
    and "execAz P cmd = Inl err"
  shows "handler_try P req = Inl err"
  using assms(4)
proof (cases rule: cli_routes_cases)
  case 1
  show ?thesis
    using handler_try_token [OF assms(1,2) assms(3) [unfolded 1(1)], of P]
      assms(5) [unfolded 1(2)]
    by simp
next
  case 2
  show ?thesis
    using handler_try_logout [OF assms(1,2) assms(3) [unfolded 2(1)], of P]
      assms(5) [unfolded 2(2)]
    by simp
next
  case 3
  show ?thesis
    using handler_try_login [OF assms(1,2) assms(3) [unfolded 3(1)], of P]
      assms(5) [unfolded 3(2)]
    by simp
next
  case 4
  show ?thesis
    using handler_try_user [OF assms(1,2) assms(3) [unfolded 4(1)], of P]
      assms(5) [unfolded 4(2)]
    by simp
qed

lemma handler_OPTIONS:
  "req_method req = ''OPTIONS'' \<Longrightarrow>
   handler_try P req = setResponse req 200 None Map.empty"
  by (simp add: handler_try_def)

text \<open>The token route: the cache fields and the response.\<close>

lemma get_prop_truthy: "get_prop j k = Some v \<Longrightarrow> truthy j"
  by (cases j) simp_all

lemma getCacheHeaders_none:
  assumes "out = [] \<or> JSON_parse P out = None
     \<or> (\<exists>j. JSON_parse P out = Some j \<and> get_prop j ''expiresOn'' = None)"
  shows "getCacheHeaders P (Some out) = Map.empty"
  using assms by (auto simp: getCacheHeaders_def)

lemma getCacheHeaders_expiry:
  assumes "out \<noteq> []" and "JSON_parse P out = Some j"
    and "get_prop j ''expiresOn'' = Some v" and "truthy v"
  shows "getCacheHeaders P (Some out) =
     [''Cache-Control'' \<mapsto> ''private'',
      ''Expires'' \<mapsto> toUTCString (Date_of_number (map_option (\<lambda>t. t - 300000) (Date_new P v)))]"
  using assms get_prop_truthy [OF assms(3)] by (simp add: getCacheHeaders_def)

lemma handler_token_output:
  assumes "req_method req \<noteq> ''OPTIONS''" and "url req = Some u"
    and "index (split (CHR ''/'') u) 1 = Some ''token''"
    and "execSync P ''az account get-access-token -o json'' = Inr out"
  shows "handler_try P req = Inr (handler P req)"
    and "statusCode (handler P req) = 200"
    and "content (handler P req) = Some out"
    and "headerFields (handler P req) =
       [''Content-Type'' \<mapsto> ''text/plain'',
        ''Access-Control-Allow-Origin'' \<mapsto> or_default (headers req ''origin'') ''self'',
        ''Access-Control-Allow-Headers'' \<mapsto>
           or_default (headers req ''access-control-request-headers'') ''*'']
       ++ getCacheHeaders P (Some out)"
proof -
  have "execAz P ''account get-access-token -o json'' = Inr (Some out)"
    using assms(4) by (simp add: execAz_def)
  then have *: "handler_try P req = setResponse req 200 (Some out) (getCacheHeaders P (Some out))"
    using handler_try_token [OF assms(1-3), of P] by simp
  show "handler_try P req = Inr (handler P req)" "statusCode (handler P req) = 200"
    "content (handler P req) = Some out"
    "headerFields (handler P req) =
       [''Content-Type'' \<mapsto> ''text/plain'',
        ''Access-Control-Allow-Origin'' \<mapsto> or_default (headers req ''origin'') ''self'',
        ''Access-Control-Allow-Headers'' \<mapsto>
           or_default (headers req ''access-control-request-headers'') ''*'']
       ++ getCacheHeaders P (Some out)"
    by (simp_all add: handler_def * setResponse_in_range)
qed

lemma utc_string_example: "utc_string 1704110100000 = ''Mon, 01 Jan 2024 11:55:00 GMT''"
  by code_simp

text \<open>The fields of a response, and the segment the switch looks at.\<close>

lemma getCacheHeaders_fields:
  "getCacheHeaders P t ''Content-Type'' = None"
  "getCacheHeaders P t ''Access-Control-Allow-Origin'' = None"
  "getCacheHeaders P t ''Access-Control-Allow-Headers'' = None"
  by (simp_all add: getCacheHeaders_def split: option.splits)

lemma setResponse_fields:
  assumes "setResponse req c b h = Inr r"
    and "h ''Content-Type'' = None" and "h ''Access-Control-Allow-Origin'' = None"
    and "h ''Access-Control-Allow-Headers'' = None"
  shows "headerFields r ''Content-Type'' = Some ''text/plain''"
    and "headerFields r ''Access-Control-Allow-Origin'' = Some (or_default (headers req ''origin'') ''self'')"
    and "headerFields r ''Access-Control-Allow-Headers''
       = Some (or_default (headers req ''access-control-request-headers'') ''*'')"
  using assms by (auto simp: setResponse_def map_add_def split: sum.splits)

lemma handler_try_setResponse:
  assumes "handler_try P req = Inr r"
  shows "\<exists>c b h. setResponse req c b h = Inr r \<and> (h = Map.empty \<or> (\<exists>t. h = getCacheHeaders P t))"
  using assms unfolding handler_try_def Let_def
  by (auto split: if_splits option.splits sum.splits)

lemma hd_split: "hd (split c s) = takeWhile (\<lambda>x. x \<noteq> c) s"
  by (subst split_takeWhile) simp

lemma index_split_first_segment: "index (split (CHR ''/'') u) 1 = first_segment u"
proof (cases "dropWhile (\<lambda>x. x \<noteq> CHR ''/'') u")
  case Nil
  have "split (CHR ''/'') u = [takeWhile (\<lambda>x. x \<noteq> CHR ''/'') u]"
    by (subst split_takeWhile) (simp only: Nil list.case)
  then show ?thesis
    by (simp add: index_def first_segment_def Nil)
next
  case (Cons a r)
  have *: "split (CHR ''/'') u = takeWhile (\<lambda>x. x \<noteq> CHR ''/'') u # split (CHR ''/'') r"
    by (subst split_takeWhile) (simp only: Cons list.case)
  obtain y ys where ys: "split (CHR ''/'') r = y # ys"
    using split_not_Nil [of "CHR ''/''" r] by (cases "split (CHR ''/'') r") auto
  then have "y = takeWhile (\<lambda>x. x \<noteq> CHR ''/'') r"
    using hd_split [of "CHR ''/''" r] by simp
  then show ?thesis
    by (simp add: index_def first_segment_def Cons * ys)
qed

lemma handler_try_default:
  assumes "req_method req \<noteq> ''OPTIONS''" and "url req = Some u" and "u \<noteq> []"
    and "index (split (CHR ''/'') u) 1 \<noteq> Some ''token''"
    and "index (split (CHR ''/'') u) 1 \<noteq> Some ''logout''"
    and "index (split (CHR ''/'') u) 1 \<noteq> Some ''login''"
    and "index (split (CHR ''/'') u) 1 \<noteq> Some ''user''"
    and "index (split (CHR ''/'') u) 1 \<noteq> Some ''httpcode''"
  shows "handler_try P req = setResponse req 404 (Some (''Unsupported url '' @ u)) Map.empty"
  using assms by (simp add: handler_try_def)

lemma handler_try_empty_url:
  assumes "req_method req \<noteq> ''OPTIONS''" and "url req = None \<or> url req = Some []"
  shows "handler_try P req = setResponse req 404 (Some ''Empty url'') Map.empty"
  using assms by (auto simp: handler_try_def)

text \<open>The status echo.\<close>

lemma is_digit_not_special:
  assumes "is_digit c"
  shows "\<not> is_ws c" and "c \<noteq> CHR ''-''" and "c \<noteq> CHR ''+''" and "c \<noteq> CHR ''/''"
  using assms by (auto simp: is_digit_def is_ws_def)

lemma round_to_double_exact: "\<bar>n\<bar> < 9007199254740992 \<Longrightarrow> round_to_double n = n"
  by (simp add: round_to_double_def)

lemma sign_not_ws: "\<not> is_ws (CHR ''-'')" "\<not> is_ws (CHR ''+'')"
  by (simp_all add: is_ws_def)

lemma takeWhile_digits: "list_all is_digit r \<Longrightarrow> takeWhile is_digit r = r"
  by (simp add: list_all_iff)

lemma parseInt_integer_string:
  assumes "integer_string s"
  shows "parseInt s = Some (round_to_double (integer_value s))"
proof -
  from assms obtain c r where s: "s = c # r"
    by (cases s) (auto simp: integer_string_def)
  show ?thesis
  proof (cases "c = CHR ''-'' \<or> c = CHR ''+''")
    case True
    with assms have r: "r \<noteq> []" "list_all is_digit r"
      by (auto simp: integer_string_def s)
    have t: "takeWhile is_digit r = r"
      by (rule takeWhile_digits [OF r(2)])
    from True show ?thesis
    proof
      assume "c = CHR ''-''"
      then show ?thesis
        by (simp add: s parseInt_def integer_value_def sign_not_ws t r(1))
    next
      assume "c = CHR ''+''"
      then show ?thesis
        by (simp add: s parseInt_def integer_value_def sign_not_ws t r(1))
    qed
  next
    case False
    with assms have all: "list_all is_digit (c # r)"
      by (auto simp: integer_string_def s)
    then have c: "is_digit c"
      by simp
    have t: "takeWhile is_digit (c # r) = c # r"
      by (rule takeWhile_digits [OF all])
    from False is_digit_not_special(1) [OF c] show ?thesis
      by (simp add: s parseInt_def integer_value_def Let_def t del: takeWhile.simps)
  qed
qed

lemma integer_string_no_slash:
  assumes "integer_string s"
  shows "CHR ''/'' \<notin> set s"
proof -
  from assms obtain c r where s: "s = c # r"
    by (cases s) (auto simp: integer_string_def)
  show ?thesis
  proof (cases "c = CHR ''-'' \<or> c = CHR ''+''")
    case True
    with assms have "list_all is_digit r"
      by (auto simp: integer_string_def s)
    with True show ?thesis
      using is_digit_not_special(4) by (auto simp: s list_all_iff)
  next
    case False
    with assms have "list_all is_digit (c # r)"
      by (auto simp: integer_string_def s)
    then show ?thesis
      using is_digit_not_special(4) by (auto simp: s list_all_iff)
  qed
qed

lemma split_no_separator: "c \<notin> set s \<Longrightarrow> split c s = [s]"
  by (induction s) auto

lemma httpcode_url:
  assumes "CHR ''/'' \<notin> set a"
  shows "split (CHR ''/'') (''/httpcode/'' @ a) = [[], ''httpcode'', a]"
  using assms by (simp add: split_no_separator)

lemma handler_try_httpcode:
  assumes "req_method req \<noteq> ''OPTIONS''" and "url req = Some u"
    and "index (split (CHR ''/'') u) 1 = Some ''httpcode''"
    and "index (split (CHR ''/'') u) 2 = arg"
  shows "handler_try P req =
     setResponse req
       (num_or (parseInt (case arg of None \<Rightarrow> ''undefined'' | Some a \<Rightarrow> a)) 404) arg Map.empty"
  using assms url_not_empty [OF assms(3)] by (simp add: handler_try_def Let_def)

lemma handler_try_httpcode_integer:
  assumes "req_method req \<noteq> ''OPTIONS''" and "url req = Some (''/httpcode/'' @ n)"
    and "integer_string n"
  shows "handler_try P req =
     setResponse req (num_or (Some (round_to_double (integer_value n))) 404) (Some n) Map.empty"
proof -
  have sp: "split (CHR ''/'') (''/httpcode/'' @ n) = [[], ''httpcode'', n]"
    using integer_string_no_slash [OF assms(3)] by (rule httpcode_url)
  have i: "index (split (CHR ''/'') (''/httpcode/'' @ n)) 1 = Some ''httpcode''"
    "index (split (CHR ''/'') (''/httpcode/'' @ n)) 2 = Some n"
    unfolding sp by (simp_all add: index_def)
  show ?thesis
    using handler_try_httpcode [OF assms(1,2) i, of P]
    by (simp add: parseInt_integer_string [OF assms(3)])
qed

text \<open>Whatever the request, the status written is one the runtime accepts.\<close>

lemma handler_status_range:
  "100 \<le> statusCode (handler P req) \<and> statusCode (handler P req) \<le> 999"
proof (cases "handler_try P req")
  case (Inl err)
  then show ?thesis
    by (simp add: handler_def)
next
  case (Inr r)
  from handler_try_setResponse [OF Inr] obtain c b h where "setResponse req c b h = Inr r"
    by blast
  then have "100 \<le> statusCode r \<and> statusCode r \<le> 999"
    by (auto simp: setResponse_def writeHead_def Let_def split: sum.splits if_splits)
  with Inr show ?thesis
    by (simp add: handler_def)
qed

text \<open>
  Beyond the range: a status that wraps into 100..999 modulo \<open>2 ^ 32\<close> is written, a value
  past \<open>2 ^ 53\<close> is rounded first, and a leading integer that the runtime refuses ends in
  the catch block.
\<close>

lemma parseInt_rounds:
  "parseInt ''9007199254741193'' = Some 9007199254741192"
  "parseInt ''18446744073709551816'' = Some 18446744073709551616"
  by code_simp+

lemma httpcode_beyond_the_range:
  "statusCode (handler logged_in (get_request ''/httpcode/4294967496'')) = 200"
  "statusCode (handler logged_in (get_request ''/httpcode/9007199254741193'')) = 200"
  "statusCode (handler logged_in (get_request ''/httpcode/18446744073709551816'')) = 500"
  "statusCode (handler logged_in (get_request ''/httpcode/5abc'')) = 500"
  by code_simp+

text \<open>The labels of the switch and the default branch.\<close>

lemma route_members:
  "Some ''token'' \<in> Some ` set routes" "Some ''logout'' \<in> Some ` set routes"
  "Some ''login'' \<in> Some ` set routes" "Some ''user'' \<in> Some ` set routes"
  "Some ''httpcode'' \<in> Some ` set routes"
  unfolding routes_def list.set by (intro imageI insertI1 insertI2)+

lemma not_member_neq: "x \<notin> A \<Longrightarrow> y \<in> A \<Longrightarrow> x \<noteq> y"
  by blast

lemma not_a_route:
  assumes "seg \<notin> Some ` set routes"
  shows "seg \<noteq> Some ''token''" and "seg \<noteq> Some ''logout''" and "seg \<noteq> Some ''login''"
    and "seg \<noteq> Some ''user''" and "seg \<noteq> Some ''httpcode''"
proof -
  note r = not_member_neq [OF assms]
  show "seg \<noteq> Some ''token''" by (rule r [OF route_members(1)])
  show "seg \<noteq> Some ''logout''" by (rule r [OF route_members(2)])
  show "seg \<noteq> Some ''login''" by (rule r [OF route_members(3)])
  show "seg \<noteq> Some ''user''" by (rule r [OF route_members(4)])
  show "seg \<noteq> Some ''httpcode''" by (rule r [OF route_members(5)])
qed

lemma routes_cases:
  assumes "r \<in> set routes"
  obtains "r = ''token''" | "r = ''logout''" | "r = ''login''" | "r = ''user''" | "r = ''httpcode''"
proof -
  from assms have
    "r = ''token'' \<or> r = ''logout'' \<or> r = ''login'' \<or> r = ''user'' \<or> r = ''httpcode''"
    unfolding routes_def list.set insert_iff empty_iff
    by (elim disjE FalseE) (rule disjI1, assumption | rule disjI2)+
  then show ?thesis
    by (elim disjE) (rule that; assumption)+
qed
lemma setResponse_url: "setResponse (req\<lparr>url := x\<rparr>) c b h = setResponse req c b h"
  by (simp add: setResponse_def split: sum.splits)

lemma handler_try_same_cli_route:
  assumes "index (split (CHR ''/'') u) 1 = Some r" and "index (split (CHR ''/'') u') 1 = Some r"
    and "(r, cmd) \<in> set cli_routes"
  shows "handler_try P (req\<lparr>url := Some u\<rparr>) = handler_try P (req\<lparr>url := Some u'\<rparr>)"
proof (cases "req_method req = ''OPTIONS''")
  case True
  then show ?thesis
    by (simp add: handler_OPTIONS setResponse_url)
next
  case False
  then have m: "req_method (req\<lparr>url := Some u\<rparr>) \<noteq> ''OPTIONS''"
    "req_method (req\<lparr>url := Some u'\<rparr>) \<noteq> ''OPTIONS''"
    by simp_all
  have v: "url (req\<lparr>url := Some u\<rparr>) = Some u" "url (req\<lparr>url := Some u'\<rparr>) = Some u'"
    by simp_all
  from assms(3) show ?thesis
  proof (cases rule: cli_routes_cases)
    case 1
    show ?thesis
      using handler_try_token [OF m(1) v(1) assms(1) [unfolded 1(1)], of P]
        handler_try_token [OF m(2) v(2) assms(2) [unfolded 1(1)], of P]
      by (simp add: setResponse_url cong: sum.case_cong)
  next
    case 2
    show ?thesis
      using handler_try_logout [OF m(1) v(1) assms(1) [unfolded 2(1)], of P]
        handler_try_logout [OF m(2) v(2) assms(2) [unfolded 2(1)], of P]
      by (simp add: setResponse_url cong: sum.case_cong)
  next
    case 3
    show ?thesis
      using handler_try_login [OF m(1) v(1) assms(1) [unfolded 3(1)], of P]
        handler_try_login [OF m(2) v(2) assms(2) [unfolded 3(1)], of P]
      by (simp add: setResponse_url cong: sum.case_cong)
  next
    case 4
    show ?thesis
      using handler_try_user [OF m(1) v(1) assms(1) [unfolded 4(1)], of P]
        handler_try_user [OF m(2) v(2) assms(2) [unfolded 4(1)], of P]
      by (simp add: setResponse_url cong: sum.case_cong)
  qed
qed

lemma route_segments:
  assumes "r \<in> set routes"
  shows "first_segment (''/'' @ r) = Some r
       \<and> first_segment (''/'' @ r @ ''/'' @ rest) = Some r
       \<and> first_segment (''/'' @ r @ ''?'' @ q) \<notin> Some ` set routes"
  using assms
proof (cases rule: routes_cases)
  case 1
  show ?thesis
    unfolding 1 by (simp add: first_segment_def routes_def)
next
  case 2
  show ?thesis
    unfolding 2 by (simp add: first_segment_def routes_def)
next
  case 3
  show ?thesis
    unfolding 3 by (simp add: first_segment_def routes_def)
next
  case 4
  show ?thesis
    unfolding 4 by (simp add: first_segment_def routes_def)
next
  case 5
  show ?thesis
    unfolding 5 by (simp add: first_segment_def routes_def)
qed


section \<open>Properties\<close>

text \<open>
  C1. On each of the routes token, logout, login and user, when the CLI exits with
  status 1 the listener does not throw: it answers 200 with an undefined (empty) body.
\<close>

theorem exit_status_1_is_empty_200:
  assumes "url req = Some u" and "index (split (CHR ''/'') u) 1 = Some r"
    and "(r, cmd) \<in> set cli_routes"
    and "execSync P (''az '' @ cmd) = Inl err" and "err_status err = Some 1"
  shows "handler_try P req = Inr (handler P req)
       \<and> statusCode (handler P req) = 200 \<and> content (handler P req) = None"
proof -
  have "execAz P cmd = Inr None"
    using assms(4,5) by (rule execAz_status_1)
  then have "handler_try P req = setResponse req 200 None Map.empty"
    using handler_OPTIONS [of req P] handler_try_cli_undefined [OF _ assms(1-3), of P]
    by (cases "req_method req = ''OPTIONS''") simp_all
  then show ?thesis
    by (simp add: handler_def setResponse_in_range)
qed

theorem exit_status_1_is_empty_200_witness:
  "err_status (ChildProcessError (Some 1) ''not logged in'') = Some 1
   \<and> handler_try (fake_platform (Inl (ChildProcessError (Some 1) ''not logged in'')) None None)
        (get_request ''/logout'')
     = Inr (handler (fake_platform (Inl (ChildProcessError (Some 1) ''not logged in'')) None None)
        (get_request ''/logout''))
   \<and> statusCode (handler (fake_platform (Inl (ChildProcessError (Some 1) ''not logged in'')) None None)
        (get_request ''/logout'')) = 200
   \<and> content (handler (fake_platform (Inl (ChildProcessError (Some 1) ''not logged in'')) None None)
        (get_request ''/logout'')) = None"
  using exit_status_1_is_empty_200
    [of "get_request ''/logout''" "''/logout''" "''logout''" "''logout''"
        "fake_platform (Inl (ChildProcessError (Some 1) ''not logged in'')) None None"
        "ChildProcessError (Some 1) ''not logged in''"]
  by (simp add: get_request_def fake_platform_def cli_routes_def index_def)

text \<open>
  C5. On each of the routes token, logout, login and user, when the CLI fails with any
  exit status other than 1 (or with no exit status at all), the listener answers 500
  and the body is the serialized error.
\<close>

theorem hard_failure_is_500:
  assumes "req_method req \<noteq> ''OPTIONS''"
    and "url req = Some u" and "index (split (CHR ''/'') u) 1 = Some r"
    and "(r, cmd) \<in> set cli_routes"
    and "execSync P (''az '' @ cmd) = Inl err" and "err_status err \<noteq> Some 1"
  shows "handler_try P req = Inl err
       \<and> handler P req =
           \<lparr>statusCode = 500, headerFields = Map.empty, content = Some (JSON_stringify P err)\<rparr>"
proof -
  have "execAz P cmd = Inl err"
    using assms(5,6) by (rule execAz_failure)
  then have "handler_try P req = Inl err"
    by (rule handler_try_cli_throws [OF assms(1-4)])
  then show ?thesis
    by (simp add: handler_def)
qed

theorem hard_failure_is_500_witness:
  "err_status (ChildProcessError (Some 2) ''{status:2}'') \<noteq> Some 1
   \<and> handler (fake_platform (Inl (ChildProcessError (Some 2) ''{status:2}'')) None None)
        (get_request ''/user'')
     = \<lparr>statusCode = 500, headerFields = Map.empty, content = Some ''{status:2}''\<rparr>"
  using hard_failure_is_500
    [of "get_request ''/user''" "''/user''" "''user''" "''account show -o json''"
        "fake_platform (Inl (ChildProcessError (Some 2) ''{status:2}'')) None None"
        "ChildProcessError (Some 2) ''{status:2}''"]
  by (simp add: get_request_def fake_platform_def cli_routes_def index_def)

text \<open>
  C6. On the token route, when the CLI's output is not JSON, or is JSON without an
  \<^verbatim>\<open>expiresOn\<close> property, the cache-header computation returns the empty map (it
  cannot throw: the parser's error is caught), and the response is a 200 without
  \<^verbatim>\<open>Cache-Control\<close> and \<^verbatim>\<open>Expires\<close> whose body is the CLI's output.
\<close>

theorem no_expiry_no_cache_headers:
  assumes "req_method req \<noteq> ''OPTIONS''"
    and "url req = Some u" and "index (split (CHR ''/'') u) 1 = Some ''token''"
    and "execSync P ''az account get-access-token -o json'' = Inr out"
    and "JSON_parse P out = None
       \<or> (\<exists>j. JSON_parse P out = Some j \<and> get_prop j ''expiresOn'' = None)"
  shows "getCacheHeaders P (Some out) = Map.empty
       \<and> handler_try P req = Inr (handler P req)
       \<and> statusCode (handler P req) = 200
       \<and> headerFields (handler P req) ''Cache-Control'' = None
       \<and> headerFields (handler P req) ''Expires'' = None
       \<and> content (handler P req) = Some out"
proof -
  have "getCacheHeaders P (Some out) = Map.empty"
    using assms(5) by (intro getCacheHeaders_none) blast
  then show ?thesis
    using handler_token_output [OF assms(1-4)] by simp
qed


theorem no_expiry_no_cache_headers_witness:
  "JSON_parse (fake_platform (Inr ''Please run az login'') None None) ''Please run az login'' = None
   \<and> getCacheHeaders (fake_platform (Inr ''Please run az login'') None None)
        (Some ''Please run az login'') = Map.empty
   \<and> statusCode (handler (fake_platform (Inr ''Please run az login'') None None)
        (get_request ''/token'')) = 200
   \<and> headerFields (handler (fake_platform (Inr ''Please run az login'') None None)
        (get_request ''/token'')) ''Cache-Control'' = None
   \<and> headerFields (handler (fake_platform (Inr ''Please run az login'') None None)
        (get_request ''/token'')) ''Expires'' = None
   \<and> content (handler (fake_platform (Inr ''Please run az login'') None None)
        (get_request ''/token'')) = Some ''Please run az login''"
  using no_expiry_no_cache_headers
    [of "get_request ''/token''" "''/token''"
        "fake_platform (Inr ''Please run az login'') None None" "''Please run az login''"]
  by (simp add: get_request_def fake_platform_def index_def)


text \<open>
  C2. On the token route, when the CLI's output is a JSON object whose \<^verbatim>\<open>expiresOn\<close>
  is a string that the platform reads as the time \<open>T\<close>, the response is a 200 with
  \<^verbatim>\<open>Cache-Control: private\<close> and with \<^verbatim>\<open>Expires\<close> the UTC string of the date
  \<open>T - 300\<close> seconds; that date is the time value \<open>T - 300000\<close> whenever it lies in
  the range of \<^verbatim>\<open>Date\<close>.
\<close>

theorem expiry_minus_300_seconds:
  assumes "conforming P" and "req_method req \<noteq> ''OPTIONS''"
    and "url req = Some u" and "index (split (CHR ''/'') u) 1 = Some ''token''"
    and "execSync P ''az account get-access-token -o json'' = Inr out"
    and "JSON_parse P out = Some (JObj kvs)"
    and "map_of kvs ''expiresOn'' = Some (JStr s)"
    and "Date_new P (JStr s) = Some T"
  shows "statusCode (handler P req) = 200
       \<and> content (handler P req) = Some out
       \<and> headerFields (handler P req) ''Cache-Control'' = Some ''private''
       \<and> headerFields (handler P req) ''Expires''
           = Some (toUTCString (Date_of_number (Some (T - 300 * 1000))))
       \<and> (\<bar>T - 300 * 1000\<bar> \<le> 8640000000000000 \<longrightarrow>
            headerFields (handler P req) ''Expires'' = Some (utc_string (T - 300 * 1000)))"
proof -
  have out: "out \<noteq> []"
    using assms(1,6) by (auto simp: conforming_def)
  have s: "truthy (JStr s)"
    using assms(1,8) by (auto simp: conforming_def)
  have "get_prop (JObj kvs) ''expiresOn'' = Some (JStr s)"
    using assms(7) by simp
  from getCacheHeaders_expiry [OF out assms(6) this s]
  have "getCacheHeaders P (Some out) =
     [''Cache-Control'' \<mapsto> ''private'',
      ''Expires'' \<mapsto> toUTCString (Date_of_number (Some (T - 300000)))]"
    using assms(8) by simp
  then show ?thesis
    using handler_token_output [OF assms(2-5)] by (simp add: TimeClip_def)
qed


theorem expiry_minus_300_seconds_witness:
  "conforming logged_in
   \<and> statusCode (handler logged_in (get_request ''/token'')) = 200
   \<and> content (handler logged_in (get_request ''/token'')) = Some token_text
   \<and> headerFields (handler logged_in (get_request ''/token'')) ''Cache-Control'' = Some ''private''
   \<and> headerFields (handler logged_in (get_request ''/token'')) ''Expires''
       = Some ''Mon, 01 Jan 2024 11:55:00 GMT''"
proof -
  have c: "conforming logged_in"
    by (simp add: conforming_def logged_in_def fake_platform_def)
  have "token_text \<noteq> []"
    by (simp add: token_text_def)
  then have p: "JSON_parse logged_in token_text
      = Some (JObj [(''accessToken'', JStr ''eyJ0''),
                    (''expiresOn'', JStr ''2024-01-01 12:00:00.000000'')])"
    by (simp add: logged_in_def fake_platform_def token_value_def)
  have d: "Date_new logged_in (JStr ''2024-01-01 12:00:00.000000'') = Some 1704110400000"
    by (simp add: logged_in_def fake_platform_def)
  have e: "execSync logged_in ''az account get-access-token -o json'' = Inr token_text"
    by (simp add: logged_in_def fake_platform_def)
  have i: "index (split (CHR ''/'') ''/token'') 1 = Some ''token''"
    by (simp add: index_def)
  have m: "map_of [(''accessToken'', JStr ''eyJ0''),
                    (''expiresOn'', JStr ''2024-01-01 12:00:00.000000'')] ''expiresOn''
      = Some (JStr ''2024-01-01 12:00:00.000000'')"
    by simp
  have r: "req_method (get_request ''/token'') \<noteq> ''OPTIONS''"
      "url (get_request ''/token'') = Some ''/token''"
    by (simp_all add: get_request_def)
  from expiry_minus_300_seconds [OF c r i e p m d] c show ?thesis
    by (simp add: utc_string_example TimeClip_def)
qed

text \<open>
  C9. On the token route, when the CLI's output parses and its \<^verbatim>\<open>expiresOn\<close> is a
  non-empty string that is not a date, the cache fields are still sent:
  \<^verbatim>\<open>Cache-Control: private\<close> and \<^verbatim>\<open>Expires: Invalid Date\<close>.
\<close>

theorem invalid_expiry_date:
  assumes "conforming P" and "req_method req \<noteq> ''OPTIONS''"
    and "url req = Some u" and "index (split (CHR ''/'') u) 1 = Some ''token''"
    and "execSync P ''az account get-access-token -o json'' = Inr out"
    and "JSON_parse P out = Some j"
    and "get_prop j ''expiresOn'' = Some (JStr s)" and "s \<noteq> []"
    and "Date_new P (JStr s) = None"
  shows "statusCode (handler P req) = 200
       \<and> content (handler P req) = Some out
       \<and> headerFields (handler P req) ''Cache-Control'' = Some ''private''
       \<and> headerFields (handler P req) ''Expires'' = Some ''Invalid Date''"
proof -
  have out: "out \<noteq> []"
    using assms(1,6) by (auto simp: conforming_def)
  have "truthy (JStr s)"
    using assms(8) by simp
  from getCacheHeaders_expiry [OF out assms(6,7) this]
  have "getCacheHeaders P (Some out) =
     [''Cache-Control'' \<mapsto> ''private'', ''Expires'' \<mapsto> ''Invalid Date'']"
    using assms(9) by simp
  then show ?thesis
    using handler_token_output [OF assms(2-5)] by simp
qed



theorem invalid_expiry_date_witness:
  \<open>conforming bad_expiry
   \<and> content (handler bad_expiry (get_request ''/token'')) = Some ''{"expiresOn":"soon"}''
   \<and> headerFields (handler bad_expiry (get_request ''/token'')) ''Cache-Control'' = Some ''private''
   \<and> headerFields (handler bad_expiry (get_request ''/token'')) ''Expires'' = Some ''Invalid Date''\<close>
proof -
  have c: "conforming bad_expiry"
    by (simp add: conforming_def bad_expiry_def fake_platform_def)
  have p: \<open>JSON_parse bad_expiry ''{"expiresOn":"soon"}'' = Some (JObj [(''expiresOn'', JStr ''soon'')])\<close>
    by (simp add: bad_expiry_def fake_platform_def)
  have g: "get_prop (JObj [(''expiresOn'', JStr ''soon'')]) ''expiresOn'' = Some (JStr ''soon'')"
    by simp
  have d: "Date_new bad_expiry (JStr ''soon'') = None"
    by (simp add: bad_expiry_def fake_platform_def)
  have e: \<open>execSync bad_expiry ''az account get-access-token -o json'' = Inr ''{"expiresOn":"soon"}''\<close>
    by (simp add: bad_expiry_def fake_platform_def)
  have i: "index (split (CHR ''/'') ''/token'') 1 = Some ''token''"
    by (simp add: index_def)
  have r: "req_method (get_request ''/token'') \<noteq> ''OPTIONS''"
      "url (get_request ''/token'') = Some ''/token''"
    by (simp_all add: get_request_def)
  have n: "''soon'' \<noteq> []"
    by simp
  from invalid_expiry_date [OF c r i e p g n d] c show ?thesis
    by simp
qed


text \<open>
  Every response written by \<^verbatim>\<open>setResponse\<close>, that is every response but the one of the
  catch block, carries \<^verbatim>\<open>Content-Type: text/plain\<close>, the request's \<^verbatim>\<open>Origin\<close>
  (\<^verbatim>\<open>self\<close> when it is missing or empty) and the request's
  \<^verbatim>\<open>Access-Control-Request-Headers\<close> (\<^verbatim>\<open>*\<close> when missing or empty). The catch
  block's response has status 500, the serialized error as its body, and no field.
\<close>

lemma setResponse_paths_carry_fields:
  "case handler_try P req of
     Inr r \<Rightarrow>
       handler P req = r
       \<and> headerFields r ''Content-Type'' = Some ''text/plain''
       \<and> headerFields r ''Access-Control-Allow-Origin''
           = Some (or_default (headers req ''origin'') ''self'')
       \<and> headerFields r ''Access-Control-Allow-Headers''
           = Some (or_default (headers req ''access-control-request-headers'') ''*'')
   | Inl err \<Rightarrow>
       handler P req =
         \<lparr>statusCode = 500, headerFields = Map.empty, content = Some (JSON_stringify P err)\<rparr>"
proof (cases "handler_try P req")
  case (Inl err)
  then show ?thesis
    by (simp add: handler_def)
next
  case (Inr r)
  from handler_try_setResponse [OF Inr] obtain c b h where
    set: "setResponse req c b h = Inr r" and h: "h = Map.empty \<or> (\<exists>t. h = getCacheHeaders P t)"
    by blast
  from h have "h ''Content-Type'' = None" "h ''Access-Control-Allow-Origin'' = None"
    "h ''Access-Control-Allow-Headers'' = None"
    by (auto simp: getCacheHeaders_fields)
  from setResponse_fields [OF set this] Inr show ?thesis
    by (simp add: handler_def)
qed

text \<open>
  C4. Every response should carry \<^verbatim>\<open>Content-Type: text/plain\<close> and the two
  \<^verbatim>\<open>Access-Control\<close> fields, the 500 of a handler that throws included. The listener
  does not do that: when the CLI exits with status 2 on the token route, the 500 response
  of the catch block has none of the three fields, whereas a 500 written by
  \<^verbatim>\<open>setResponse\<close> (for \<^verbatim>\<open>/httpcode/500\<close>) has them like every other response.
\<close>

theorem error_response_has_no_headers:
  "statusCode (handler no_cli (get_request ''/token'')) = 500
   \<and> headerFields (handler no_cli (get_request ''/token'')) ''Content-Type'' = None
   \<and> headerFields (handler no_cli (get_request ''/token'')) ''Access-Control-Allow-Origin'' = None
   \<and> headerFields (handler no_cli (get_request ''/token'')) ''Access-Control-Allow-Headers'' = None
   \<and> statusCode (handler no_cli (get_request ''/httpcode/500'')) = 500
   \<and> headerFields (handler no_cli (get_request ''/httpcode/500'')) ''Content-Type''
       = Some ''text/plain''
   \<and> headerFields (handler no_cli (get_request ''/httpcode/500'')) ''Access-Control-Allow-Origin''
       = Some ''self''
   \<and> headerFields (handler no_cli (get_request ''/httpcode/500'')) ''Access-Control-Allow-Headers''
       = Some ''*''"
proof -
  have "handler_try no_cli (get_request ''/token'')
      = Inl (ChildProcessError (Some 2) ''az: command failed'')"
    by (rule handler_try_cli_throws [where u = "''/token''" and r = "''token''"
          and cmd = "''account get-access-token -o json''"])
       (simp_all add: get_request_def no_cli_def fake_platform_def index_def cli_routes_def
          execAz_def)
  then have 1: "handler no_cli (get_request ''/token'')
      = \<lparr>statusCode = 500, headerFields = Map.empty, content = Some ''az: command failed''\<rparr>"
    by (simp add: handler_def no_cli_def fake_platform_def)
  have 2: "handler_try no_cli (get_request ''/httpcode/500'')
      = setResponse (get_request ''/httpcode/500'') 500 (Some ''500'') Map.empty"
    by (simp add: handler_try_def get_request_def index_def parseInt_def is_ws_def is_digit_def
        digits_value_def round_to_double_def)
  then have 3: "handler no_cli (get_request ''/httpcode/500'')
      = \<lparr>statusCode = 500,
         headerFields =
           [''Content-Type'' \<mapsto> ''text/plain'',
            ''Access-Control-Allow-Origin'' \<mapsto> ''self'',
            ''Access-Control-Allow-Headers'' \<mapsto> ''*''],
         content = Some ''500''\<rparr>"
    by (simp add: handler_def setResponse_in_range get_request_def)
  show ?thesis
    unfolding 1 3 by simp
qed

text \<open>
  C3. On a request that is not a preflight, for the URL \<^verbatim>\<open>/httpcode/n\<close> where \<open>n\<close> is a
  valid integer string: when the value of \<open>n\<close> lies in 100..999, the status is that value
  and the body passed to \<^verbatim>\<open>response.end\<close> is the string \<open>n\<close>; and for no other valid
  integer string is the status the value of \<open>n\<close>.
\<close>

theorem httpcode_echoes_valid_status:
  assumes "req_method req \<noteq> ''OPTIONS''" and "url req = Some (''/httpcode/'' @ n)"
    and "integer_string n"
  shows "(100 \<le> integer_value n \<and> integer_value n \<le> 999 \<longrightarrow>
            handler_try P req = Inr (handler P req)
            \<and> statusCode (handler P req) = integer_value n
            \<and> content (handler P req) = Some n)
       \<and> (statusCode (handler P req) = integer_value n \<longrightarrow>
            100 \<le> integer_value n \<and> integer_value n \<le> 999)"
proof (intro conjI impI)
  assume v: "100 \<le> integer_value n \<and> integer_value n \<le> 999"
  then have "num_or (Some (round_to_double (integer_value n))) 404 = integer_value n"
    by (simp add: round_to_double_exact)
  then have *: "handler_try P req = setResponse req (integer_value n) (Some n) Map.empty"
    using handler_try_httpcode_integer [OF assms, of P] by simp
  show "handler_try P req = Inr (handler P req)" "statusCode (handler P req) = integer_value n"
    "content (handler P req) = Some n"
    using v by (simp_all add: handler_def * setResponse_in_range)
next
  assume "statusCode (handler P req) = integer_value n"
  with handler_status_range [of P req]
  show "100 \<le> integer_value n" "integer_value n \<le> 999"
    by simp_all
qed

theorem httpcode_echoes_valid_status_witness:
  "integer_string ''200'' \<and> integer_value ''200'' = 200
   \<and> statusCode (handler logged_in (get_request ''/httpcode/200'')) = 200
   \<and> content (handler logged_in (get_request ''/httpcode/200'')) = Some ''200''
   \<and> integer_string ''+200'' \<and> integer_value ''+200'' = 200
   \<and> statusCode (handler logged_in (get_request ''/httpcode/+200'')) = 200
   \<and> content (handler logged_in (get_request ''/httpcode/+200'')) = Some ''+200''"
proof -
  have i: "integer_string ''200''" "integer_string ''+200''"
    by (simp_all add: integer_string_def is_digit_def)
  have v: "integer_value ''200'' = 200" "integer_value ''+200'' = 200"
    by (simp_all add: integer_value_def digits_value_def)
  have r: "req_method (get_request ''/httpcode/200'') \<noteq> ''OPTIONS''"
    "url (get_request ''/httpcode/200'') = Some (''/httpcode/'' @ ''200'')"
    "req_method (get_request ''/httpcode/+200'') \<noteq> ''OPTIONS''"
    "url (get_request ''/httpcode/+200'') = Some (''/httpcode/'' @ ''+200'')"
    by (simp_all add: get_request_def)
  from httpcode_echoes_valid_status [OF r(1,2) i(1), of logged_in]
    httpcode_echoes_valid_status [OF r(3,4) i(2), of logged_in] i v
  show ?thesis
    by simp
qed

text \<open>
  Read for every valid integer string, the property fails: for \<^verbatim>\<open>0\<close> the status is 404
  (\<^verbatim>\<open>0 || 404\<close>), and for \<^verbatim>\<open>5\<close> the runtime rejects the status and the response is the
  500 of the catch block.
\<close>

theorem httpcode_zero_and_five:
  "integer_string ''0''
   \<and> statusCode (handler logged_in (get_request ''/httpcode/0'')) = 404
   \<and> content (handler logged_in (get_request ''/httpcode/0'')) = Some ''0''
   \<and> integer_string ''5''
   \<and> statusCode (handler logged_in (get_request ''/httpcode/5'')) = 500"
  by (simp add: integer_string_def handler_def handler_try_def setResponse_def writeHead_def
      ToInt32_def index_def parseInt_def is_ws_def is_digit_def digits_value_def
      round_to_double_def get_request_def)

text \<open>
  C7. On a request that is not a preflight and whose first segment is \<^verbatim>\<open>httpcode\<close>,
  when there is no argument (\<^verbatim>\<open>urlArr[2]\<close> is undefined), or \<^verbatim>\<open>parseInt\<close> of the
  argument is \<^verbatim>\<open>NaN\<close> or 0, the status is 404 and the body passed to
  \<^verbatim>\<open>response.end\<close> is the argument (\<^verbatim>\<open>undefined\<close> when there is none).
\<close>

theorem httpcode_defaults_to_404:
  assumes "req_method req \<noteq> ''OPTIONS''" and "url req = Some u"
    and "index (split (CHR ''/'') u) 1 = Some ''httpcode''"
    and "index (split (CHR ''/'') u) 2 = arg"
    and "case arg of None \<Rightarrow> True | Some x \<Rightarrow> parseInt x = None \<or> parseInt x = Some 0"
  shows "handler_try P req = Inr (handler P req)
       \<and> statusCode (handler P req) = 404
       \<and> content (handler P req) = arg"
proof -
  have u: "parseInt ''undefined'' = None"
    by (simp add: parseInt_def is_ws_def is_digit_def)
  have "num_or (parseInt (case arg of None \<Rightarrow> ''undefined'' | Some a \<Rightarrow> a)) 404 = 404"
    using assms(5) u by (cases arg) auto
  then have "handler_try P req = setResponse req 404 arg Map.empty"
    using handler_try_httpcode [OF assms(1-4), of P] by simp
  then show ?thesis
    by (simp add: handler_def setResponse_in_range)
qed

theorem httpcode_defaults_to_404_witness:
  "index (split (CHR ''/'') ''/httpcode'') 2 = None
   \<and> statusCode (handler logged_in (get_request ''/httpcode'')) = 404
   \<and> content (handler logged_in (get_request ''/httpcode'')) = None
   \<and> parseInt ''abc'' = None
   \<and> statusCode (handler logged_in (get_request ''/httpcode/abc'')) = 404
   \<and> content (handler logged_in (get_request ''/httpcode/abc'')) = Some ''abc''"
proof -
  have a: "index (split (CHR ''/'') ''/httpcode'') 1 = Some ''httpcode''"
    "index (split (CHR ''/'') ''/httpcode'') 2 = None"
    by (simp_all add: index_def)
  have b: "index (split (CHR ''/'') ''/httpcode/abc'') 1 = Some ''httpcode''"
    "index (split (CHR ''/'') ''/httpcode/abc'') 2 = Some ''abc''"
    by (simp_all add: index_def)
  have p: "parseInt ''abc'' = None"
    by (simp add: parseInt_def is_ws_def is_digit_def)
  have r: "req_method (get_request ''/httpcode'') \<noteq> ''OPTIONS''"
    "url (get_request ''/httpcode'') = Some ''/httpcode''"
    "req_method (get_request ''/httpcode/abc'') \<noteq> ''OPTIONS''"
    "url (get_request ''/httpcode/abc'') = Some ''/httpcode/abc''"
    by (simp_all add: get_request_def)
  from httpcode_defaults_to_404 [OF r(1,2) a, of logged_in]
    httpcode_defaults_to_404 [OF r(3,4) b, of logged_in] a(2) p
  show ?thesis
    by simp
qed

text \<open>
  Read for every argument that is not a number, the property fails on one that starts with a number:
  \<^verbatim>\<open>/httpcode/200abc\<close> is answered with status 200.
\<close>

theorem httpcode_numeric_prefix:
  "\<not> integer_string ''200abc''
   \<and> statusCode (handler logged_in (get_request ''/httpcode/200abc'')) = 200
   \<and> content (handler logged_in (get_request ''/httpcode/200abc'')) = Some ''200abc''"
  by (simp add: integer_string_def handler_def handler_try_def setResponse_def writeHead_def
      ToInt32_def index_def parseInt_def is_ws_def is_digit_def digits_value_def
      round_to_double_def get_request_def)


text \<open>
  C8. On a request that is not a preflight: a URL whose first segment is none of the five
  labels is answered by \<^verbatim>\<open>setResponse\<close>, not by the catch block, with 404 and the body
  \<^verbatim>\<open>Unsupported url\<close> followed by the URL; a missing or empty URL is answered the same
  way with 404 and the body \<^verbatim>\<open>Empty url\<close>.
\<close>

theorem unknown_route_is_404:
  assumes "req_method req \<noteq> ''OPTIONS''"
  shows "(url req = None \<or> url req = Some [] \<longrightarrow>
            handler_try P req = Inr (handler P req)
            \<and> statusCode (handler P req) = 404
            \<and> content (handler P req) = Some ''Empty url''
            \<and> headerFields (handler P req) ''Content-Type'' = Some ''text/plain'')
       \<and> (\<forall>u. url req = Some u \<and> u \<noteq> [] \<and> index (split (CHR ''/'') u) 1 \<notin> Some ` set routes \<longrightarrow>
            handler_try P req = Inr (handler P req)
            \<and> statusCode (handler P req) = 404
            \<and> content (handler P req) = Some (''Unsupported url '' @ u)
            \<and> headerFields (handler P req) ''Content-Type'' = Some ''text/plain'')"
proof (intro conjI impI allI)
  assume "url req = None \<or> url req = Some []"
  then have *: "handler_try P req = setResponse req 404 (Some ''Empty url'') Map.empty"
    by (rule handler_try_empty_url [OF assms])
  show "handler_try P req = Inr (handler P req)" "statusCode (handler P req) = 404"
    "content (handler P req) = Some ''Empty url''"
    "headerFields (handler P req) ''Content-Type'' = Some ''text/plain''"
    by (simp_all add: handler_def * setResponse_in_range)
next
  fix u
  assume a: "url req = Some u \<and> u \<noteq> [] \<and> index (split (CHR ''/'') u) 1 \<notin> Some ` set routes"
  then have n: "index (split (CHR ''/'') u) 1 \<notin> Some ` set routes"
    by simp
  from a have *: "handler_try P req = setResponse req 404 (Some (''Unsupported url '' @ u)) Map.empty"
    by (intro handler_try_default [OF assms] not_a_route [OF n]) simp_all
  show "handler_try P req = Inr (handler P req)" "statusCode (handler P req) = 404"
    "content (handler P req) = Some (''Unsupported url '' @ u)"
    "headerFields (handler P req) ''Content-Type'' = Some ''text/plain''"
    by (simp_all add: handler_def * setResponse_in_range)
qed


theorem unknown_route_is_404_witness:
  "statusCode (handler logged_in (get_request ''/foo'')) = 404
   \<and> content (handler logged_in (get_request ''/foo'')) = Some ''Unsupported url /foo''
   \<and> statusCode (handler logged_in \<lparr>req_method = ''GET'', url = None, headers = Map.empty\<rparr>) = 404
   \<and> content (handler logged_in \<lparr>req_method = ''GET'', url = None, headers = Map.empty\<rparr>)
       = Some ''Empty url''"
proof -
  have n: "index (split (CHR ''/'') ''/foo'') 1 \<notin> Some ` set routes"
    by (simp add: index_def routes_def)
  have m: "req_method (get_request ''/foo'') \<noteq> ''OPTIONS''"
    "req_method \<lparr>req_method = ''GET'', url = None, headers = Map.empty\<rparr> \<noteq> ''OPTIONS''"
    by (simp_all add: get_request_def)
  from unknown_route_is_404 [OF m(1), of logged_in] n
  have 1: "statusCode (handler logged_in (get_request ''/foo'')) = 404
     \<and> content (handler logged_in (get_request ''/foo'')) = Some ''Unsupported url /foo''"
    by (simp add: get_request_def)
  from unknown_route_is_404 [OF m(2), of logged_in]
  have 2: "statusCode (handler logged_in \<lparr>req_method = ''GET'', url = None, headers = Map.empty\<rparr>) = 404
     \<and> content (handler logged_in \<lparr>req_method = ''GET'', url = None, headers = Map.empty\<rparr>)
         = Some ''Empty url''"
    by simp
  from 1 2 show ?thesis
    by simp
qed

text \<open>
  C10. The switch looks at the text between the first and the second \<open>/\<close> of the URL. A
  label followed by further segments selects the same case as the label alone (and on
  the CLI routes the response is the same), and a label followed by a query string is
  none of the labels: the default branch answers 404.
\<close>

theorem dispatch_on_first_segment:
  assumes "r \<in> set routes"
  shows "index (split (CHR ''/'') u) 1 = first_segment u
       \<and> index (split (CHR ''/'') (''/'' @ r)) 1 = Some r
       \<and> index (split (CHR ''/'') (''/'' @ r @ ''/'' @ rest)) 1 = Some r
       \<and> ((r, cmd) \<in> set cli_routes \<longrightarrow>
            handler P (req\<lparr>url := Some (''/'' @ r @ ''/'' @ rest)\<rparr>)
              = handler P (req\<lparr>url := Some (''/'' @ r)\<rparr>))
       \<and> (req_method req \<noteq> ''OPTIONS'' \<longrightarrow>
            index (split (CHR ''/'') (''/'' @ r @ ''?'' @ q)) 1 \<notin> Some ` set routes
            \<and> handler_try P (req\<lparr>url := Some (''/'' @ r @ ''?'' @ q)\<rparr>)
                = Inr (handler P (req\<lparr>url := Some (''/'' @ r @ ''?'' @ q)\<rparr>))
            \<and> statusCode (handler P (req\<lparr>url := Some (''/'' @ r @ ''?'' @ q)\<rparr>)) = 404
            \<and> content (handler P (req\<lparr>url := Some (''/'' @ r @ ''?'' @ q)\<rparr>))
                = Some (''Unsupported url /'' @ r @ ''?'' @ q))"
proof -
  note seg = route_segments [OF assms, of rest q]
  have bare: "index (split (CHR ''/'') (''/'' @ r)) 1 = Some r"
    and extra: "index (split (CHR ''/'') (''/'' @ r @ ''/'' @ rest)) 1 = Some r"
    and query: "index (split (CHR ''/'') (''/'' @ r @ ''?'' @ q)) 1 \<notin> Some ` set routes"
    unfolding index_split_first_segment
    by (rule seg [THEN conjunct1], rule seg [THEN conjunct2, THEN conjunct1],
        rule seg [THEN conjunct2, THEN conjunct2])
  have same: "(r, cmd) \<in> set cli_routes \<longrightarrow>
      handler P (req\<lparr>url := Some (''/'' @ r @ ''/'' @ rest)\<rparr>)
        = handler P (req\<lparr>url := Some (''/'' @ r)\<rparr>)"
  proof
    assume "(r, cmd) \<in> set cli_routes"
    from handler_try_same_cli_route [OF extra bare this, of P req]
    show "handler P (req\<lparr>url := Some (''/'' @ r @ ''/'' @ rest)\<rparr>)
        = handler P (req\<lparr>url := Some (''/'' @ r)\<rparr>)"
      by (simp only: handler_def)
  qed
  have default: "req_method req \<noteq> ''OPTIONS'' \<longrightarrow>
      index (split (CHR ''/'') (''/'' @ r @ ''?'' @ q)) 1 \<notin> Some ` set routes
      \<and> handler_try P (req\<lparr>url := Some (''/'' @ r @ ''?'' @ q)\<rparr>)
          = Inr (handler P (req\<lparr>url := Some (''/'' @ r @ ''?'' @ q)\<rparr>))
      \<and> statusCode (handler P (req\<lparr>url := Some (''/'' @ r @ ''?'' @ q)\<rparr>)) = 404
      \<and> content (handler P (req\<lparr>url := Some (''/'' @ r @ ''?'' @ q)\<rparr>))
          = Some (''Unsupported url /'' @ r @ ''?'' @ q)"
  proof
    assume m: "req_method req \<noteq> ''OPTIONS''"
    have "handler_try P (req\<lparr>url := Some (''/'' @ r @ ''?'' @ q)\<rparr>)
        = setResponse (req\<lparr>url := Some (''/'' @ r @ ''?'' @ q)\<rparr>) 404
            (Some (''Unsupported url '' @ (''/'' @ r @ ''?'' @ q))) Map.empty"
      by (rule handler_try_default [OF _ _ _ not_a_route [OF query]]) (simp_all add: m)
    then have "handler_try P (req\<lparr>url := Some (''/'' @ r @ ''?'' @ q)\<rparr>)
        = setResponse req 404 (Some (''Unsupported url /'' @ r @ ''?'' @ q)) Map.empty"
      by (simp add: setResponse_url)
    then have
      "handler_try P (req\<lparr>url := Some (''/'' @ r @ ''?'' @ q)\<rparr>)
          = Inr (handler P (req\<lparr>url := Some (''/'' @ r @ ''?'' @ q)\<rparr>))
       \<and> statusCode (handler P (req\<lparr>url := Some (''/'' @ r @ ''?'' @ q)\<rparr>)) = 404
       \<and> content (handler P (req\<lparr>url := Some (''/'' @ r @ ''?'' @ q)\<rparr>))
          = Some (''Unsupported url /'' @ r @ ''?'' @ q)"
      by (simp add: handler_def setResponse_in_range)
    with query show
      "index (split (CHR ''/'') (''/'' @ r @ ''?'' @ q)) 1 \<notin> Some ` set routes
      \<and> handler_try P (req\<lparr>url := Some (''/'' @ r @ ''?'' @ q)\<rparr>)
          = Inr (handler P (req\<lparr>url := Some (''/'' @ r @ ''?'' @ q)\<rparr>))
      \<and> statusCode (handler P (req\<lparr>url := Some (''/'' @ r @ ''?'' @ q)\<rparr>)) = 404
      \<and> content (handler P (req\<lparr>url := Some (''/'' @ r @ ''?'' @ q)\<rparr>))
          = Some (''Unsupported url /'' @ r @ ''?'' @ q)"
      by (rule conjI)
  qed
  show ?thesis
    by (intro conjI) (rule index_split_first_segment bare extra same default)+
qed

theorem dispatch_on_first_segment_witness:
  "''token'' \<in> set routes
   \<and> handler logged_in (get_request ''/token/extra'') = handler logged_in (get_request ''/token'')
   \<and> statusCode (handler logged_in (get_request ''/token?x=1'')) = 404
   \<and> content (handler logged_in (get_request ''/token?x=1'')) = Some ''Unsupported url /token?x=1''"
proof -
  have r: "''token'' \<in> set routes"
    by (simp add: routes_def)
  have c: "(''token'', ''account get-access-token -o json'') \<in> set cli_routes"
    by (simp add: cli_routes_def)
  have m: "req_method (get_request ''/'') \<noteq> ''OPTIONS''"
    by (simp add: get_request_def)
  have u: "(get_request ''/'')\<lparr>url := Some (''/'' @ ''token'' @ ''/'' @ ''extra'')\<rparr>
        = get_request ''/token/extra''"
    "(get_request ''/'')\<lparr>url := Some (''/'' @ ''token'')\<rparr> = get_request ''/token''"
    "(get_request ''/'')\<lparr>url := Some (''/'' @ ''token'' @ ''?'' @ ''x=1'')\<rparr>
        = get_request ''/token?x=1''"
    by (simp_all add: get_request_def)
  from dispatch_on_first_segment
    [OF r, of "''/''" "''extra''" "''account get-access-token -o json''" logged_in
       "get_request ''/''" "''x=1''"] c m
  have "handler logged_in ((get_request ''/'')\<lparr>url := Some (''/'' @ ''token'' @ ''/'' @ ''extra'')\<rparr>)
        = handler logged_in ((get_request ''/'')\<lparr>url := Some (''/'' @ ''token'')\<rparr>)
     \<and> statusCode (handler logged_in
          ((get_request ''/'')\<lparr>url := Some (''/'' @ ''token'' @ ''?'' @ ''x=1'')\<rparr>)) = 404
     \<and> content (handler logged_in
          ((get_request ''/'')\<lparr>url := Some (''/'' @ ''token'' @ ''?'' @ ''x=1'')\<rparr>))
         = Some (''Unsupported url /'' @ ''token'' @ ''?'' @ ''x=1'')"
    by blast
  then show ?thesis
    unfolding u using r by simp
qed


end
